theory Spec2Isabelle
  imports Complex_Main
begin

section \<open>Strings and the two regular expressions of \<open>main.go\<close>\<close>

text \<open>
  A Go string is a sequence of bytes; \<open>len\<close> counts bytes, and so does \<open>length\<close> on
  \<^typ>\<open>string\<close>. The library functions \<open>strings.Contains\<close> and \<open>strings.Split\<close> are
  written out as the recursions they compute.
\<close>

text \<open>\<open>strings.Contains(s, substr)\<close>: \<open>substr\<close> occurs at some offset of \<open>s\<close>.\<close>

fun Contains :: "string \<Rightarrow> string \<Rightarrow> bool" where
  "Contains [] substr = (substr = [])"
| "Contains (c # cs) substr = (take (length substr) (c # cs) = substr \<or> Contains cs substr)"

text \<open>
  \<open>strings.Split(s, "/")\<close> with the one-byte separator of the source: the pieces between
  the separators, in order; never the empty list, so the \<open>[]\<close> branch of the inner
  \<open>case\<close> is never taken.
\<close>

fun Split :: "string \<Rightarrow> char \<Rightarrow> string list" where
  "Split [] sep = [[]]"
| "Split (c # cs) sep =
     (if c = sep then [] # Split cs sep
      else (case Split cs sep of p # ps \<Rightarrow> (c # p) # ps | [] \<Rightarrow> [[c]]))"

text \<open>The slice expression \<open>s[i:j]\<close>, used by the source only with \<open>i \<le> j \<le> len(s)\<close>.\<close>

definition slice :: "string \<Rightarrow> nat \<Rightarrow> nat \<Rightarrow> string" where
  "slice s i j = take (j - i) (drop i s)"

text \<open>The character class \<open>[a-fA-F0-9]\<close>.\<close>

definition isHexDigit :: "char \<Rightarrow> bool" where
  "isHexDigit c = (c \<in> set ''abcdefABCDEF0123456789'')"

text \<open>
  Both regular expressions of the source are anchored at both ends (\<open>^ ... $\<close>, and Go's
  \<open>$\<close> without the \<open>m\<close> flag matches only at the end of the text) and are a sequence of
  counted hex classes \<open>[a-fA-F0-9]{n}\<close> and literal bytes.
\<close>

datatype atom = HexRun nat | Lit char

fun MatchString :: "atom list \<Rightarrow> string \<Rightarrow> bool" where
  "MatchString [] s = (s = [])"
| "MatchString (HexRun n # r) s =
     (n \<le> length s \<and> list_all isHexDigit (take n s) \<and> MatchString r (drop n s))"
| "MatchString (Lit c # r) s =
     (case s of [] \<Rightarrow> False | x # xs \<Rightarrow> x = c \<and> MatchString r xs)"

text \<open>\<open>^[a-fA-F0-9]{8}-[a-fA-F0-9]{4}-[a-fA-F0-9]{4}-[a-fA-F0-9]{4}-[a-fA-F0-9]{12}$\<close>\<close>

definition uuidPattern :: "atom list" where
  "uuidPattern = [HexRun 8, Lit CHR ''-'', HexRun 4, Lit CHR ''-'', HexRun 4, Lit CHR ''-'',
                  HexRun 4, Lit CHR ''-'', HexRun 12]"

text \<open>\<open>^[a-fA-F0-9]{32}$\<close>\<close>

definition hex32Pattern :: "atom list" where
  "hex32Pattern = [HexRun 32]"

section \<open>Identifier validation and normalization\<close>

definition isValidUUID :: "string \<Rightarrow> bool" where
  "isValidUUID uuid = MatchString uuidPattern uuid"

text \<open>
  \<open>cleanDatabaseID\<close> calls itself on the last piece of a URL. Nothing in the source
  bounds that recursion, so the function is defined as a partial function: \<open>None\<close> is
  a call that never returns.
\<close>

partial_function (option) cleanDatabaseID :: "string \<Rightarrow> string option" where
  "cleanDatabaseID input =
     (if Contains input ''-'' then Some input
      else if MatchString hex32Pattern input then
        Some (slice input 0 8 @ ''-'' @ slice input 8 12 @ ''-'' @ slice input 12 16 @ ''-''
              @ slice input 16 20 @ ''-'' @ slice input 20 32)
      else if Contains input ''notion.so'' then
        (let parts = Split input CHR ''/'';
             lastPart = parts ! (length parts - 1)
         in if 32 \<le> length lastPart then cleanDatabaseID lastPart else Some input)
      else Some input)"

section \<open>Records, schema and coerced values\<close>

text \<open>
  A decoded JSON value, as \<open>encoding/json\<close> stores it in an \<open>interface{}\<close>: \<open>nil\<close>,
  \<open>bool\<close>, \<open>float64\<close>, \<open>string\<close>, \<open>[]interface{}\<close> and \<open>map[string]interface{}\<close>.
  A Go map is an association list here, so that \<open>range\<close> has a list to walk through; the
  keys of a Go map are distinct and \<open>range\<close> visits them in no fixed order, so the
  properties below are stated for every order of a list with distinct keys.
\<close>

type_synonym float64 = real

datatype json =
    JNull
  | JBool bool
  | JNumber float64
  | JString string
  | JArray "json list"
  | JObject "(string \<times> json) list"

type_synonym RawPageData = "(string \<times> json) list"

type_synonym error = string

text \<open>
  Modelled from the spec: the column type tags are constants of the \<open>notionapi\<close> package,
  which is not part of this repository. The spec gives a closed enumeration with a
  catch-all; the constructors are the constants that \<open>main.go\<close> names, and
  \<open>PropertyConfigTypeOther\<close> is every other tag.
\<close>

datatype PropertyConfigType =
    PropertyConfigTypeTitle
  | PropertyConfigTypeRichText
  | PropertyConfigTypeNumber
  | PropertyConfigTypeSelect
  | PropertyConfigTypeMultiSelect
  | PropertyConfigTypeDate
  | PropertyConfigTypePeople
  | PropertyConfigTypeFiles
  | PropertyConfigTypeCheckbox
  | PropertyConfigTypeURL
  | PropertyConfigTypeEmail
  | PropertyConfigTypePhoneNumber
  | PropertyConfigTypeFormula
  | PropertyConfigTypeRelation
  | PropertyConfigTypeRollup
  | PropertyConfigTypeOther string

text \<open>
  Of \<open>notionapi.Database\<close> the program reads the column map only, and of each column its
  type (\<open>GetType()\<close>).
\<close>

record Database =
  Properties :: "string \<rightharpoonup> PropertyConfigType"

text \<open>The payloads that \<open>convertToNotionProperties\<close> builds; a \<open>*Text\<close> is an option.\<close>

record Text =
  Content :: string

record RichText =
  Text :: "Text option"

datatype Property =
    TitleProperty "RichText list"
  | RichTextProperty "RichText list"
  | NumberProperty float64

record PageData =
  Properties :: "string \<rightharpoonup> Property"

section \<open>Coercion of one record\<close>

text \<open>
  The \<open>switch\<close> of the loop body: the value of \<open>notionProp\<close> after it. \<open>None\<close> is
  both a \<open>notionProp\<close> left \<open>nil\<close> by a failed type assertion and the \<open>continue\<close>
  of the \<open>default\<close> branch; in either case the loop stores nothing for the field.
\<close>

fun switchType :: "PropertyConfigType \<Rightarrow> json \<Rightarrow> Property option" where
  "switchType PropertyConfigTypeTitle propValue =
     (case propValue of
        JString strValue \<Rightarrow> Some (TitleProperty [\<lparr>Text = Some \<lparr>Content = strValue\<rparr>\<rparr>])
      | _ \<Rightarrow> None)"
| "switchType PropertyConfigTypeRichText propValue =
     (case propValue of
        JString strValue \<Rightarrow> Some (RichTextProperty [\<lparr>Text = Some \<lparr>Content = strValue\<rparr>\<rparr>])
      | _ \<Rightarrow> None)"
| "switchType PropertyConfigTypeNumber propValue =
     (case propValue of
        JNumber numValue \<Rightarrow> Some (NumberProperty numValue)
      | _ \<Rightarrow> None)"
| "switchType _ propValue = None"

text \<open>\<open>for propName, propValue := range props\<close>, with \<open>result.Properties\<close> passed along.\<close>

fun rangeProps ::
  "(string \<times> json) list \<Rightarrow> Database \<Rightarrow> (string \<rightharpoonup> Property) \<Rightarrow> (string \<rightharpoonup> Property)" where
  "rangeProps [] schema result = result"
| "rangeProps ((propName, propValue) # rest) schema result =
     (case Database.Properties schema propName of
        None \<Rightarrow> rangeProps rest schema result
      | Some schemaProp \<Rightarrow>
          (case switchType schemaProp propValue of
             None \<Rightarrow> rangeProps rest schema result
           | Some notionProp \<Rightarrow> rangeProps rest schema (result(propName \<mapsto> notionProp))))"

text \<open>
  The function returns a pair in Go, and both components are kept: the record built so
  far and the error (\<open>None\<close> is \<open>nil\<close>).
\<close>

definition convertToNotionProperties :: "RawPageData \<Rightarrow> Database \<Rightarrow> PageData \<times> error option" where
  "convertToNotionProperties raw schema =
     (case map_of raw ''properties'' of
        Some (JObject props) \<Rightarrow>
          (\<lparr>PageData.Properties = rangeProps props schema Map.empty\<rparr>, None)
      | _ \<Rightarrow>
          (\<lparr>PageData.Properties = Map.empty\<rparr>,
           Some ''expected key 'properties' in data, got none''))"

section \<open>The \<open>insert\<close> command\<close>

text \<open>
  What the command reads from outside the program is a record of functions: the
  environment, the file system, the JSON decoder and the two calls of the Notion client.
  The remote service has a state \<open>'w\<close> that every call may change, so its answers may
  depend on everything sent before. Printing is left out; the requests handed to
  \<open>client.Page.Create\<close> are collected in call order.
\<close>

record Page =
  URL :: string

record Parent =
  DatabaseID :: string

record PageCreateRequest =
  Parent :: Parent
  Properties :: "string \<rightharpoonup> Property"

record 'w env =
  Getenv :: "string \<Rightarrow> string"
  ReadFile :: "string \<Rightarrow> error + string"
  UnmarshalSlice :: "string \<Rightarrow> error + RawPageData list"
  UnmarshalSingle :: "string \<Rightarrow> error + RawPageData"
  DatabaseGet :: "'w \<Rightarrow> string \<Rightarrow> string \<Rightarrow> (error + Database) \<times> 'w"
  PageCreate :: "'w \<Rightarrow> string \<Rightarrow> PageCreateRequest \<Rightarrow> (error + Page) \<times> 'w"

text \<open>
  The end of a run: the exit code (1 from \<open>os.Exit(1)\<close>, 0 when \<open>Run\<close> returns), the
  requests sent to \<open>client.Page.Create\<close>, the final \<open>successCount\<close>, \<open>len(pagesData)\<close> and the
  state of the service.
\<close>

record 'w outcome =
  exitCode :: nat
  created :: "PageCreateRequest list"
  succeeded :: nat
  total :: nat
  world :: 'w

definition osExit1 :: "'w \<Rightarrow> 'w outcome" where
  "osExit1 w = \<lparr>exitCode = 1, created = [], succeeded = 0, total = 0, world = w\<rparr>"

text \<open>
  \<open>json.Unmarshal\<close> into \<open>[]RawPageData\<close> first, then into one \<open>RawPageData\<close>;
  \<open>None\<close> when both fail.
\<close>

definition parseRawData :: "'w env \<Rightarrow> string \<Rightarrow> RawPageData list option" where
  "parseRawData env content =
     (case UnmarshalSlice env content of
        Inr rawData \<Rightarrow> Some rawData
      | Inl err \<Rightarrow>
          (case UnmarshalSingle env content of
             Inl errSingle \<Rightarrow> None
           | Inr singleRawData \<Rightarrow> Some [singleRawData]))"

text \<open>The first loop: a record whose conversion fails is reported and skipped.\<close>

fun convertLoop :: "RawPageData list \<Rightarrow> Database \<Rightarrow> PageData list \<Rightarrow> PageData list" where
  "convertLoop [] database pagesData = pagesData"
| "convertLoop (raw # rest) database pagesData =
     (case convertToNotionProperties raw database of
        (pageData, Some err) \<Rightarrow> convertLoop rest database pagesData
      | (pageData, None) \<Rightarrow> convertLoop rest database (pagesData @ [pageData]))"

definition pageCreateRequest :: "string \<Rightarrow> PageData \<Rightarrow> PageCreateRequest" where
  "pageCreateRequest dbID pageData =
     \<lparr>Parent = \<lparr>DatabaseID = dbID\<rparr>,
      PageCreateRequest.Properties = PageData.Properties pageData\<rparr>"

text \<open>
  The second loop. In debug mode the schema is fetched again before each request (its
  answer is only printed). Neither branch after \<open>client.Page.Create\<close> leaves the loop.
\<close>

fun insertLoop ::
  "'w env \<Rightarrow> bool \<Rightarrow> string \<Rightarrow> string \<Rightarrow> PageData list \<Rightarrow> 'w \<Rightarrow> PageCreateRequest list \<Rightarrow> nat
   \<Rightarrow> PageCreateRequest list \<times> nat \<times> 'w" where
  "insertLoop env debugMode apiKey dbID [] w sent successCount = (sent, successCount, w)"
| "insertLoop env debugMode apiKey dbID (pageData # rest) w sent successCount =
     (let w1 = (if debugMode then snd (DatabaseGet env w apiKey dbID) else w);
          request = pageCreateRequest dbID pageData
      in case PageCreate env w1 apiKey request of
           (Inl err, w2) \<Rightarrow>
             insertLoop env debugMode apiKey dbID rest w2 (sent @ [request]) successCount
         | (Inr response, w2) \<Rightarrow>
             insertLoop env debugMode apiKey dbID rest w2 (sent @ [request]) (successCount + 1))"

text \<open>
  \<open>insertCmd.Run\<close>, from the parsed flags on. \<open>None\<close> is a run in which
  \<open>cleanDatabaseID\<close> does not return.
\<close>

definition insertRun ::
  "'w env \<Rightarrow> 'w \<Rightarrow> string \<Rightarrow> string \<Rightarrow> string \<Rightarrow> bool \<Rightarrow> 'w outcome option" where
  "insertRun env w dbIDFlag dataFile apiKeyFlag debugMode =
     (if dbIDFlag = [] \<or> dataFile = [] then Some (osExit1 w)
      else case cleanDatabaseID dbIDFlag of
        None \<Rightarrow> None
      | Some dbID \<Rightarrow>
          if \<not> isValidUUID dbID then Some (osExit1 w)
          else
            let apiKey = (if apiKeyFlag = [] then Getenv env ''NOTION_API_KEY'' else apiKeyFlag)
            in if apiKey = [] then Some (osExit1 w)
               else case ReadFile env dataFile of
                 Inl err \<Rightarrow> Some (osExit1 w)
               | Inr content \<Rightarrow>
                   (case parseRawData env content of
                      None \<Rightarrow> Some (osExit1 w)
                    | Some rawData \<Rightarrow>
                        (case DatabaseGet env w apiKey dbID of
                           (Inl err, w1) \<Rightarrow> Some (osExit1 w1)
                         | (Inr database, w1) \<Rightarrow>
                             (let pagesData = convertLoop rawData database []
                              in case insertLoop env debugMode apiKey dbID pagesData w1 [] 0 of
                                   (sent, successCount, w2) \<Rightarrow>
                                     Some \<lparr>exitCode = 0, created = sent,
                                           succeeded = successCount,
                                           total = length pagesData, world = w2\<rparr>))))"

section \<open>Example data\<close>

definition exampleSchema :: Database where
  "exampleSchema = \<lparr>Database.Properties =
     [''Name'' \<mapsto> PropertyConfigTypeTitle, ''Notes'' \<mapsto> PropertyConfigTypeRichText,
      ''Age'' \<mapsto> PropertyConfigTypeNumber, ''Done'' \<mapsto> PropertyConfigTypeCheckbox]\<rparr>"

definition exampleRecords :: "RawPageData list" where
  "exampleRecords =
     [[(''properties'', JObject [(''Name'', JString ''A''), (''Age'', JNumber 25)])],
      [(''title'', JString ''B'')],
      [(''properties'', JObject [(''Name'', JString ''C'')])]]"

text \<open>
  A service whose state is the list of the requests it has received. It refuses the
  first page it is sent and accepts every later one.
\<close>

definition loggingEnv :: "PageCreateRequest list env" where
  "loggingEnv =
     \<lparr>Getenv = (\<lambda>name. if name = ''NOTION_API_KEY'' then ''secret'' else []),
      ReadFile = (\<lambda>path. if path = ''data.json'' then Inr ''[...]'' else Inl ''no such file''),
      UnmarshalSlice = (\<lambda>content. Inr exampleRecords),
      UnmarshalSingle = (\<lambda>content. Inl ''cannot unmarshal array''),
      DatabaseGet = (\<lambda>w apiKey dbID. (Inr exampleSchema, w)),
      PageCreate = (\<lambda>w apiKey request.
        (if w = [] then Inl ''validation_error'' else Inr \<lparr>URL = ''https://www.notion.so/p''\<rparr>,
         w @ [request]))\<rparr>"

text \<open>
  The inputs on which the URL branch of \<open>cleanDatabaseID\<close> is reached with a last piece
  that is the input itself: no dash, not 32 hex digits, \<open>notion.so\<close> inside, no \<open>/\<close>, and
  at least 32 bytes long.
\<close>

definition callsItself :: "string \<Rightarrow> bool" where
  "callsItself input =
     (\<not> Contains input ''-'' \<and> \<not> MatchString hex32Pattern input \<and>
      Contains input ''notion.so'' \<and> CHR ''/'' \<notin> set input \<and> 32 \<le> length input)"

section \<open>Facts about the string functions\<close>

lemma Split_not_Nil: "Split s sep \<noteq> []"
  by (induction s) (auto split: list.splits)

lemma lastPart_eq: "Split s sep ! (length (Split s sep) - Suc 0) = last (Split s sep)"
  by (simp add: last_conv_nth Split_not_Nil)

lemma Split_no_sep: "sep \<notin> set s \<Longrightarrow> Split s sep = [s]"
  by (induction s) auto

lemma Contains_char: "Contains s [c] = (c \<in> set s)"
  by (induction s) auto

lemma Contains_iff: "Contains s sub = (\<exists>ps ss. s = ps @ sub @ ss)"
proof (induction s)
  case Nil
  then show ?case by auto
next
  case (Cons a s)
  show ?case
  proof
    assume "Contains (a # s) sub"
    then consider "take (length sub) (a # s) = sub" | "Contains s sub" by auto
    then show "\<exists>ps ss. a # s = ps @ sub @ ss"
    proof cases
      case 1
      then have "a # s = [] @ sub @ drop (length sub) (a # s)"
        by (metis append_Nil append_take_drop_id)
      then show ?thesis by blast
    next
      case 2
      with Cons obtain ps ss where "s = ps @ sub @ ss" by blast
      then have "a # s = (a # ps) @ sub @ ss" by simp
      then show ?thesis by blast
    qed
  next
    assume "\<exists>ps ss. a # s = ps @ sub @ ss"
    then obtain ps ss where e: "a # s = ps @ sub @ ss" by blast
    show "Contains (a # s) sub"
    proof (cases ps)
      case Nil
      with e have "take (length sub) (a # s) = sub" by simp
      then show ?thesis by simp
    next
      case (Cons p ps')
      with e have "s = ps' @ sub @ ss" by simp
      with Cons.IH have "Contains s sub" by blast
      then show ?thesis by simp
    qed
  qed
qed

lemma isHexDigit_dash: "\<not> isHexDigit CHR ''-''"
  by (simp add: isHexDigit_def)

lemma hex32_no_dash: "MatchString hex32Pattern s \<Longrightarrow> \<not> Contains s ''-''"
proof
  assume m: "MatchString hex32Pattern s" and "Contains s ''-''"
  then have "CHR ''-'' \<in> set s" by (simp add: Contains_char)
  moreover from m have "\<forall>c\<in>set s. isHexDigit c"
    by (simp add: hex32Pattern_def list_all_iff)
  ultimately show False using isHexDigit_dash by blast
qed

lemma Contains_notion_not_hex32:
  assumes "Contains s ''notion.so''"
  shows "\<not> MatchString hex32Pattern s"
proof
  assume m: "MatchString hex32Pattern s"
  from assms obtain ps ss where "s = ps @ ''notion.so'' @ ss"
    by (auto simp: Contains_iff)
  then have "CHR ''n'' \<in> set s" by simp
  moreover from m have "\<forall>c\<in>set s. isHexDigit c"
    by (simp add: hex32Pattern_def list_all_iff)
  moreover have "\<not> isHexDigit CHR ''n''" by (simp add: isHexDigit_def)
  ultimately show False by blast
qed

lemma list_all_slice: "list_all P s \<Longrightarrow> list_all P (slice s i j)"
  by (auto simp: slice_def list_all_iff dest: in_set_takeD in_set_dropD)

lemma length_slice: "j \<le> length s \<Longrightarrow> length (slice s i j) = j - i"
  by (simp add: slice_def)

section \<open>Facts about \<open>cleanDatabaseID\<close>\<close>

lemma cleanDatabaseID_hex32:
  assumes "MatchString hex32Pattern input"
  shows "cleanDatabaseID input =
           Some (slice input 0 8 @ ''-'' @ slice input 8 12 @ ''-'' @ slice input 12 16 @ ''-''
                 @ slice input 16 20 @ ''-'' @ slice input 20 32)"
  by (subst cleanDatabaseID.simps) (simp add: hex32_no_dash[OF assms] assms)

lemma isValidUUID_dashed:
  assumes "MatchString hex32Pattern input"
  shows "isValidUUID (slice input 0 8 @ ''-'' @ slice input 8 12 @ ''-'' @ slice input 12 16
                 @ ''-'' @ slice input 16 20 @ ''-'' @ slice input 20 32)"
proof -
  from assms have len: "length input = 32" and hex: "list_all isHexDigit input"
    by (auto simp: hex32Pattern_def)
  show ?thesis
    by (simp add: isValidUUID_def uuidPattern_def length_slice len list_all_slice hex)
qed

lemma cleanDatabaseID_example:
  "cleanDatabaseID ''1d4a5e7fe23180b98df2ddce1ea05ddf''
     = Some ''1d4a5e7f-e231-80b9-8df2-ddce1ea05ddf''"
  by (subst cleanDatabaseID.simps) (simp add: hex32Pattern_def isHexDigit_def slice_def)

lemma cleanDatabaseID_url_step:
  assumes "\<not> Contains input ''-''" and "Contains input ''notion.so''"
    and "32 \<le> length (last (Split input CHR ''/''))"
  shows "cleanDatabaseID input = cleanDatabaseID (last (Split input CHR ''/''))"
  by (subst cleanDatabaseID.simps)
    (simp add: assms Contains_notion_not_hex32 lastPart_eq Let_def)

lemma cleanDatabaseID_plain:
  assumes "\<not> Contains s ''notion.so''"
  shows "cleanDatabaseID s \<noteq> None"
  by (subst cleanDatabaseID.simps) (simp add: assms)

text \<open>
  A call that returns was not made on an input that calls itself: by the induction rule
  of the partial function, with the recursive call replaced by any \<open>f\<close> that has the
  property already.
\<close>

lemma cleanDatabaseID_Some_not_callsItself:
  "cleanDatabaseID input = Some y \<Longrightarrow> \<not> callsItself input"
proof (rule cleanDatabaseID.raw_induct[where P = "\<lambda>i r. \<not> callsItself i" and input = input and y = y],
    goal_cases)
  case (1 f i r)
  show ?case
  proof
    assume l: "callsItself i"
    then have "Split i CHR ''/'' = [i]"
      by (simp add: callsItself_def Split_no_sep)
    with l 1(3) have "f i = Some r"
      by (simp add: callsItself_def)
    with 1(2) l show False by blast
  qed
next
  case 2
  then show ?case .
qed

lemma callsItself_None: "callsItself input \<Longrightarrow> cleanDatabaseID input = None"
  using cleanDatabaseID_Some_not_callsItself by (cases "cleanDatabaseID input") auto

section \<open>Facts about the coercion loop\<close>

lemma rangeProps_absent:
  "name \<notin> fst ` set props \<Longrightarrow> rangeProps props schema res name = res name"
  by (induction props arbitrary: res) (auto split: option.splits)

lemma rangeProps_dropped:
  "(\<And>v t. (name, v) \<in> set props \<Longrightarrow> Database.Properties schema name = Some t \<Longrightarrow>
      switchType t v = None) \<Longrightarrow>
   rangeProps props schema res name = res name"
proof (induction props arbitrary: res)
  case Nil
  then show ?case by simp
next
  case (Cons kv rest)
  then show ?case by (cases kv) (auto split: option.splits)
qed

lemma rangeProps_lookup:
  "distinct (map fst props) \<Longrightarrow> (name, v) \<in> set props \<Longrightarrow>
   rangeProps props schema res name =
     (case Database.Properties schema name of
        None \<Rightarrow> res name
      | Some t \<Rightarrow> (case switchType t v of None \<Rightarrow> res name | Some p \<Rightarrow> Some p))"
proof (induction props arbitrary: res)
  case Nil
  then show ?case by simp
next
  case (Cons kv rest)
  obtain propName propValue where kv: "kv = (propName, propValue)" by (cases kv)
  show ?case
  proof (cases "propName = name")
    case True
    with Cons.prems kv have v: "propValue = v" and nin: "name \<notin> fst ` set rest"
      by (auto simp: rev_image_eqI)
    show ?thesis using True v kv
      by (simp add: rangeProps_absent[OF nin] split: option.splits)
  next
    case False
    with Cons kv show ?thesis by (auto split: option.splits)
  qed
qed

lemma rangeProps_dom:
  "dom (rangeProps props schema res) \<subseteq> dom res \<union> dom (Database.Properties schema)"
proof
  fix x
  assume x: "x \<in> dom (rangeProps props schema res)"
  show "x \<in> dom res \<union> dom (Database.Properties schema)"
  proof (cases "Database.Properties schema x")
    case None
    then have "rangeProps props schema res x = res x"
      by (intro rangeProps_dropped) simp
    with x show ?thesis by (simp add: dom_def)
  next
    case (Some t)
    then show ?thesis by (simp add: dom_def)
  qed
qed

lemma rangeProps_filter:
  "(\<And>v t. (name, v) \<in> set props \<Longrightarrow> Database.Properties schema name = Some t \<Longrightarrow>
      switchType t v = None) \<Longrightarrow>
   rangeProps (filter (\<lambda>kv. fst kv \<noteq> name) props) schema res = rangeProps props schema res"
proof (induction props arbitrary: res)
  case Nil
  then show ?case by simp
next
  case (Cons kv rest)
  then show ?case by (cases kv) (auto split: option.splits)
qed

lemma convert_object:
  "map_of raw ''properties'' = Some (JObject props) \<Longrightarrow>
   convertToNotionProperties raw schema =
     (\<lparr>PageData.Properties = rangeProps props schema Map.empty\<rparr>, None)"
  by (simp add: convertToNotionProperties_def)

lemma convert_no_object:
  "\<forall>props. map_of raw ''properties'' \<noteq> Some (JObject props) \<Longrightarrow>
   convertToNotionProperties raw schema =
     (\<lparr>PageData.Properties = Map.empty\<rparr>, Some ''expected key 'properties' in data, got none'')"
  by (auto simp: convertToNotionProperties_def split: option.splits json.splits)

lemma switchType_mismatch:
  "(t = PropertyConfigTypeTitle \<or> t = PropertyConfigTypeRichText) \<and> (\<forall>s. v \<noteq> JString s)
   \<or> t = PropertyConfigTypeNumber \<and> (\<forall>n. v \<noteq> JNumber n) \<Longrightarrow> switchType t v = None"
  by (cases v) auto

lemma switchType_unsupported:
  "t \<notin> {PropertyConfigTypeTitle, PropertyConfigTypeRichText, PropertyConfigTypeNumber} \<Longrightarrow>
   switchType t v = None"
  by (cases t) auto

section \<open>Facts about the two loops of \<open>insert\<close>\<close>

lemma convertLoop_eq:
  "convertLoop rawData database pagesData =
     pagesData @ map (\<lambda>raw. fst (convertToNotionProperties raw database))
       (filter (\<lambda>raw. snd (convertToNotionProperties raw database) = None) rawData)"
  by (induction rawData arbitrary: pagesData) (auto split: prod.splits option.splits)

lemma insertLoop_sent:
  "fst (insertLoop env debugMode apiKey dbID pagesData w sent successCount) =
     sent @ map (pageCreateRequest dbID) pagesData"
  by (induction pagesData arbitrary: w sent successCount)
    (auto simp: Let_def split: prod.splits sum.splits)

lemma upt_0_Suc: "[0..<Suc m] = 0 # map Suc [0..<m]"
  by (simp add: upt_conv_Cons map_Suc_upt del: upt_Suc)

lemma insertLoop_step:
  assumes "before = (\<lambda>w'. if debugMode then snd (DatabaseGet env w' apiKey dbID) else w')"
    and "PageCreate env (before w) apiKey (pageCreateRequest dbID pageData) = (response, w2)"
  shows "insertLoop env debugMode apiKey dbID (pageData # rest) w sent successCount =
           insertLoop env debugMode apiKey dbID rest w2 (sent @ [pageCreateRequest dbID pageData])
             (if isl response then successCount else successCount + 1)"
  using assms by (cases response) (auto simp: Let_def)

lemma insertLoop_world:
  assumes b: "before = (\<lambda>w'. if debugMode then snd (DatabaseGet env w' apiKey dbID) else w')"
  shows "snd (snd (insertLoop env debugMode apiKey dbID pagesData w sent successCount)) =
     foldl (\<lambda>w' request. snd (PageCreate env (before w') apiKey request))
       w (map (pageCreateRequest dbID) pagesData)"
proof (induction pagesData arbitrary: w sent successCount)
  case Nil
  then show ?case by simp
next
  case (Cons pageData rest)
  obtain response w2
    where pc: "PageCreate env (before w) apiKey (pageCreateRequest dbID pageData) = (response, w2)"
    by (cases "PageCreate env (before w) apiKey (pageCreateRequest dbID pageData)") auto
  show ?case
    unfolding insertLoop_step[OF b pc] by (simp add: Cons.IH pc)
qed

lemma insertLoop_count:
  assumes b: "before = (\<lambda>w'. if debugMode then snd (DatabaseGet env w' apiKey dbID) else w')"
  shows "fst (snd (insertLoop env debugMode apiKey dbID pagesData w sent successCount)) =
     successCount + length (filter (\<lambda>i. \<not> isl (fst
        (PageCreate env
           (before (foldl (\<lambda>w' request. snd (PageCreate env (before w') apiKey request))
                     w (take i (map (pageCreateRequest dbID) pagesData))))
           apiKey (map (pageCreateRequest dbID) pagesData ! i))))
       [0..<length pagesData])"
proof (induction pagesData arbitrary: w sent successCount)
  case Nil
  then show ?case by simp
next
  case (Cons pageData rest)
  obtain response w2
    where pc: "PageCreate env (before w) apiKey (pageCreateRequest dbID pageData) = (response, w2)"
    by (cases "PageCreate env (before w) apiKey (pageCreateRequest dbID pageData)") auto
  show ?case
    unfolding insertLoop_step[OF b pc]
    by (simp add: Cons.IH pc upt_0_Suc filter_map comp_def del: upt_Suc)
qed

lemma convertLoop_requests:
  "map (pageCreateRequest dbID) (convertLoop rawData database []) =
     map (\<lambda>raw. \<lparr>Parent = \<lparr>DatabaseID = dbID\<rparr>,
                  PageCreateRequest.Properties =
                    PageData.Properties (fst (convertToNotionProperties raw database))\<rparr>)
       (filter (\<lambda>raw. snd (convertToNotionProperties raw database) = None) rawData)"
  by (simp add: convertLoop_eq comp_def pageCreateRequest_def)

section \<open>Coercion of one record: the claims\<close>

text \<open>
  Claim C1, as amended. A field of the \<open>properties\<close> object whose column is a title, a
  rich text or a number, and whose value is not a string (for the first two) or not a
  number (for the third), gets no entry in the coerced record, and the call returns no
  error. The call returns the coerced record and the error and nothing else: it returns
  exactly what it returns for the same object without that field.
\<close>

theorem mismatched_field_dropped:
  assumes "map_of raw ''properties'' = Some (JObject props)"
    and "distinct (map fst props)"
    and "(name, v) \<in> set props"
    and "Database.Properties schema name = Some t"
    and "(t = PropertyConfigTypeTitle \<or> t = PropertyConfigTypeRichText) \<and> (\<forall>s. v \<noteq> JString s)
         \<or> t = PropertyConfigTypeNumber \<and> (\<forall>n. v \<noteq> JNumber n)"
  shows "PageData.Properties (fst (convertToNotionProperties raw schema)) name = None
       \<and> snd (convertToNotionProperties raw schema) = None
       \<and> convertToNotionProperties raw schema =
           convertToNotionProperties
             [(''properties'', JObject (filter (\<lambda>kv. fst kv \<noteq> name) props))] schema"
proof -
  have none: "switchType t v = None"
    using assms(5) by (rule switchType_mismatch)
  have only: "v' = v" if "(name, v') \<in> set props" for v'
    using that assms(2,3) by (meson eq_key_imp_eq_value)
  have drop: "switchType t' v' = None"
    if "(name, v') \<in> set props" "Database.Properties schema name = Some t'" for v' t'
    using that only none assms(4) by auto
  have "rangeProps props schema Map.empty name = None"
    using rangeProps_dropped[of name props schema Map.empty] drop by simp
  moreover have "rangeProps (filter (\<lambda>kv. fst kv \<noteq> name) props) schema Map.empty
                 = rangeProps props schema Map.empty"
    using drop by (rule rangeProps_filter)
  moreover have "convertToNotionProperties
             [(''properties'', JObject (filter (\<lambda>kv. fst kv \<noteq> name) props))] schema =
           (\<lparr>PageData.Properties =
               rangeProps (filter (\<lambda>kv. fst kv \<noteq> name) props) schema Map.empty\<rparr>, None)"
    by (rule convert_object) simp
  ultimately show ?thesis
    by (simp add: convert_object[OF assms(1)])
qed

text \<open>The amended claim at a record whose \<open>Age\<close>, a number column, holds a string.\<close>

theorem mismatched_field_dropped_witness:
  "PageData.Properties (fst (convertToNotionProperties
      [(''properties'', JObject [(''Name'', JString ''A''), (''Age'', JString ''old'')])]
      exampleSchema)) ''Age'' = None
   \<and> snd (convertToNotionProperties
      [(''properties'', JObject [(''Name'', JString ''A''), (''Age'', JString ''old'')])]
      exampleSchema) = None
   \<and> convertToNotionProperties
      [(''properties'', JObject [(''Name'', JString ''A''), (''Age'', JString ''old'')])]
      exampleSchema =
     convertToNotionProperties [(''properties'', JObject [(''Name'', JString ''A'')])] exampleSchema"
  using mismatched_field_dropped
      [of "[(''properties'', JObject [(''Name'', JString ''A''), (''Age'', JString ''old'')])]"
      "[(''Name'', JString ''A''), (''Age'', JString ''old'')]" "''Age''" "JString ''old''"
      exampleSchema PropertyConfigTypeNumber]
  by (simp add: exampleSchema_def convertToNotionProperties_def)

text \<open>
  Claim C1 as stated fails: no count of dropped fields is returned. A record with one
  dropped field and a record with no field at all return the same value, so nothing in
  the returned value goes up by one with the drop.
\<close>

theorem no_dropped_count_returned:
  "convertToNotionProperties [(''properties'', JObject [(''Age'', JString ''old'')])] exampleSchema
     = convertToNotionProperties [(''properties'', JObject [])] exampleSchema"
  by (simp add: convertToNotionProperties_def exampleSchema_def)

text \<open>
  Claim C2. A field of the \<open>properties\<close> object whose column is a title, a rich text or a
  number and whose value has the matching JSON type has an entry under its own name in
  the coerced record (a map, so the entry is the only one): a title or a rich text of
  one run whose content is the string, or a number holding the numeric value.
\<close>

theorem matching_field_coerced:
  assumes "map_of raw ''properties'' = Some (JObject props)"
    and "distinct (map fst props)"
    and "(name, v) \<in> set props"
    and "Database.Properties schema name = Some t"
  shows "(t = PropertyConfigTypeTitle \<and> v = JString s \<longrightarrow>
            PageData.Properties (fst (convertToNotionProperties raw schema)) name
              = Some (TitleProperty [\<lparr>Text = Some \<lparr>Content = s\<rparr>\<rparr>]))
       \<and> (t = PropertyConfigTypeRichText \<and> v = JString s \<longrightarrow>
            PageData.Properties (fst (convertToNotionProperties raw schema)) name
              = Some (RichTextProperty [\<lparr>Text = Some \<lparr>Content = s\<rparr>\<rparr>]))
       \<and> (t = PropertyConfigTypeNumber \<and> v = JNumber n \<longrightarrow>
            PageData.Properties (fst (convertToNotionProperties raw schema)) name
              = Some (NumberProperty n))"
  using rangeProps_lookup[OF assms(2,3), of schema Map.empty] assms(4)
  by (auto simp: convert_object[OF assms(1)])

text \<open>One record with a title, a rich text and a number, each of the matching type.\<close>

theorem matching_field_coerced_witness:
  "PageData.Properties (fst (convertToNotionProperties
      [(''properties'', JObject [(''Name'', JString ''A''), (''Notes'', JString ''hi''), (''Age'', JNumber 25)])]
      exampleSchema)) ''Name'' = Some (TitleProperty [\<lparr>Text = Some \<lparr>Content = ''A''\<rparr>\<rparr>])
   \<and> PageData.Properties (fst (convertToNotionProperties
      [(''properties'', JObject [(''Name'', JString ''A''), (''Notes'', JString ''hi''), (''Age'', JNumber 25)])]
      exampleSchema)) ''Notes'' = Some (RichTextProperty [\<lparr>Text = Some \<lparr>Content = ''hi''\<rparr>\<rparr>])
   \<and> PageData.Properties (fst (convertToNotionProperties
      [(''properties'', JObject [(''Name'', JString ''A''), (''Notes'', JString ''hi''), (''Age'', JNumber 25)])]
      exampleSchema)) ''Age'' = Some (NumberProperty 25)"
  using
    matching_field_coerced
      [of "[(''properties'', JObject [(''Name'', JString ''A''), (''Notes'', JString ''hi''), (''Age'', JNumber 25)])]"
      "[(''Name'', JString ''A''), (''Notes'', JString ''hi''), (''Age'', JNumber 25)]"
      "''Name''" "JString ''A''" exampleSchema PropertyConfigTypeTitle "''A''" 0]
    matching_field_coerced
      [of "[(''properties'', JObject [(''Name'', JString ''A''), (''Notes'', JString ''hi''), (''Age'', JNumber 25)])]"
      "[(''Name'', JString ''A''), (''Notes'', JString ''hi''), (''Age'', JNumber 25)]"
      "''Notes''" "JString ''hi''" exampleSchema PropertyConfigTypeRichText "''hi''" 0]
    matching_field_coerced
      [of "[(''properties'', JObject [(''Name'', JString ''A''), (''Notes'', JString ''hi''), (''Age'', JNumber 25)])]"
      "[(''Name'', JString ''A''), (''Notes'', JString ''hi''), (''Age'', JNumber 25)]"
      "''Age''" "JNumber 25" exampleSchema PropertyConfigTypeNumber "[]" 25]
  by (simp add: exampleSchema_def)

text \<open>
  Claim C3. A field of the \<open>properties\<close> object whose column type is none of title, rich
  text and number has no entry in the coerced record, whatever its value.
\<close>

theorem unsupported_type_dropped:
  assumes "map_of raw ''properties'' = Some (JObject props)"
    and "(name, v) \<in> set props"
    and "Database.Properties schema name = Some t"
    and "t \<notin> {PropertyConfigTypeTitle, PropertyConfigTypeRichText, PropertyConfigTypeNumber}"
  shows "PageData.Properties (fst (convertToNotionProperties raw schema)) name = None"
proof -
  have "rangeProps props schema Map.empty name = Map.empty name"
  proof (rule rangeProps_dropped)
    fix v' t'
    assume "Database.Properties schema name = Some t'"
    with assms(3,4) show "switchType t' v' = None"
      by (simp add: switchType_unsupported)
  qed
  then show ?thesis
    by (simp add: convert_object[OF assms(1)])
qed

text \<open>A checkbox column holding a boolean.\<close>

theorem unsupported_type_dropped_witness:
  "PageData.Properties (fst (convertToNotionProperties
      [(''properties'', JObject [(''Done'', JBool True), (''Name'', JString ''A'')])]
      exampleSchema)) ''Done'' = None"
  using unsupported_type_dropped
      [of "[(''properties'', JObject [(''Done'', JBool True), (''Name'', JString ''A'')])]"
      "[(''Done'', JBool True), (''Name'', JString ''A'')]" "''Done''" "JBool True"
      exampleSchema PropertyConfigTypeCheckbox]
  by (simp add: exampleSchema_def)

text \<open>
  Claim C4. A raw record without the key \<open>properties\<close>, or whose \<open>properties\<close> is not an
  object, makes the conversion return its error, together with a record that has no
  entries.
\<close>

theorem missing_properties_error:
  assumes "\<forall>props. map_of raw ''properties'' \<noteq> Some (JObject props)"
  shows "snd (convertToNotionProperties raw schema)
           = Some ''expected key 'properties' in data, got none''
       \<and> PageData.Properties (fst (convertToNotionProperties raw schema)) = Map.empty"
  by (simp add: convert_no_object[OF assms])

text \<open>A record without the key, and a record whose \<open>properties\<close> is an array.\<close>

theorem missing_properties_error_witness:
  "snd (convertToNotionProperties [(''title'', JString ''A'')] exampleSchema)
     = Some ''expected key 'properties' in data, got none''
   \<and> PageData.Properties (fst (convertToNotionProperties [(''title'', JString ''A'')] exampleSchema))
     = Map.empty
   \<and> snd (convertToNotionProperties [(''properties'', JArray [JString ''A''])] exampleSchema)
     = Some ''expected key 'properties' in data, got none''
   \<and> PageData.Properties
       (fst (convertToNotionProperties [(''properties'', JArray [JString ''A''])] exampleSchema))
     = Map.empty"
  using missing_properties_error[of "[(''title'', JString ''A'')]" exampleSchema]
    missing_properties_error[of "[(''properties'', JArray [JString ''A''])]" exampleSchema]
  by simp

text \<open>
  Claim C5. Every key of the coerced record is a key of the schema, for every raw record
  and every schema; and when the record has its \<open>properties\<close> object, no error is
  returned and a field whose name the schema does not have gets no entry.
\<close>

theorem coerced_keys_in_schema:
  "dom (PageData.Properties (fst (convertToNotionProperties raw schema)))
     \<subseteq> dom (Database.Properties schema)
   \<and> (map_of raw ''properties'' = Some (JObject props) \<longrightarrow>
        snd (convertToNotionProperties raw schema) = None
        \<and> (\<forall>name. Database.Properties schema name = None \<longrightarrow>
              PageData.Properties (fst (convertToNotionProperties raw schema)) name = None))"
proof -
  have d: "dom (PageData.Properties (fst (convertToNotionProperties raw schema)))
     \<subseteq> dom (Database.Properties schema)"
    using rangeProps_dom[of _ schema Map.empty]
    by (auto simp: convertToNotionProperties_def split: option.splits json.splits)
  then have "\<forall>name. Database.Properties schema name = None \<longrightarrow>
              PageData.Properties (fst (convertToNotionProperties raw schema)) name = None"
    by (auto simp: dom_def)
  with d show ?thesis
    by (auto simp: convert_object)
qed

text \<open>A record whose only field is unknown to the schema.\<close>

theorem coerced_keys_in_schema_witness:
  "snd (convertToNotionProperties [(''properties'', JObject [(''Unknown'', JString ''x'')])]
         exampleSchema) = None
   \<and> PageData.Properties (fst (convertToNotionProperties
         [(''properties'', JObject [(''Unknown'', JString ''x'')])] exampleSchema)) ''Unknown'' = None"
  using coerced_keys_in_schema
      [of "[(''properties'', JObject [(''Unknown'', JString ''x'')])]" exampleSchema
      "[(''Unknown'', JString ''x'')]"]
  by (simp add: exampleSchema_def)

text \<open>
  Claim C10. The conversion returns an error exactly when the raw record has no
  \<open>properties\<close> object: with the object present it returns none, whatever the fields,
  their values and the column types are.
\<close>

theorem error_iff_no_properties_object:
  "(snd (convertToNotionProperties raw schema) \<noteq> None)
     = (\<forall>props. map_of raw ''properties'' \<noteq> Some (JObject props))"
  by (auto simp: convertToNotionProperties_def split: option.splits json.splits)

text \<open>A number column holding a boolean gives no error; \<open>properties\<close> being null does.\<close>

theorem error_iff_no_properties_object_witness:
  "snd (convertToNotionProperties [(''properties'', JObject [(''Age'', JBool True)])] exampleSchema) = None
   \<and> snd (convertToNotionProperties [(''properties'', JNull)] exampleSchema) \<noteq> None"
  using error_iff_no_properties_object
      [of "[(''properties'', JObject [(''Age'', JBool True)])]" exampleSchema]
    error_iff_no_properties_object[of "[(''properties'', JNull)]" exampleSchema]
  by simp

section \<open>Identifier normalization: the claims\<close>

text \<open>
  Claim C7. For every string of exactly 32 hex digits, \<open>cleanDatabaseID\<close> returns the
  string with a dash inserted after its 8th, 12th, 16th and 20th digit, and the result
  passes \<open>isValidUUID\<close>.
\<close>

theorem hex32_normalized_valid:
  assumes "MatchString hex32Pattern input"
  shows "cleanDatabaseID input =
           Some (slice input 0 8 @ ''-'' @ slice input 8 12 @ ''-'' @ slice input 12 16 @ ''-''
                 @ slice input 16 20 @ ''-'' @ slice input 20 32)
         \<and> isValidUUID (slice input 0 8 @ ''-'' @ slice input 8 12 @ ''-'' @ slice input 12 16
                 @ ''-'' @ slice input 16 20 @ ''-'' @ slice input 20 32)"
  using cleanDatabaseID_hex32[OF assms] isValidUUID_dashed[OF assms] by simp

text \<open>The identifier of the command's help text.\<close>

theorem hex32_normalized_valid_witness:
  "MatchString hex32Pattern ''1d4a5e7fe23180b98df2ddce1ea05ddf''
   \<and> cleanDatabaseID ''1d4a5e7fe23180b98df2ddce1ea05ddf'' = Some ''1d4a5e7f-e231-80b9-8df2-ddce1ea05ddf''
   \<and> isValidUUID ''1d4a5e7f-e231-80b9-8df2-ddce1ea05ddf''"
proof -
  have m: "MatchString hex32Pattern ''1d4a5e7fe23180b98df2ddce1ea05ddf''"
    by (simp add: hex32Pattern_def isHexDigit_def)
  from hex32_normalized_valid[OF m] m show ?thesis
    by (simp add: slice_def)
qed

text \<open>
  Claim C8, as amended. For every string that has no dash and contains \<open>notion.so\<close>, and
  whose piece after the last \<open>/\<close> is at least 32 bytes long, \<open>cleanDatabaseID\<close> on the
  whole string is \<open>cleanDatabaseID\<close> on that piece; and the call returns when the piece
  does not contain \<open>notion.so\<close> again.
\<close>

theorem url_segment_normalization:
  assumes "\<not> Contains input ''-''" and "Contains input ''notion.so''"
    and "32 \<le> length (last (Split input CHR ''/''))"
  shows "cleanDatabaseID input = cleanDatabaseID (last (Split input CHR ''/''))
       \<and> (\<not> Contains (last (Split input CHR ''/'')) ''notion.so'' \<longrightarrow>
            cleanDatabaseID input \<noteq> None)"
  using cleanDatabaseID_url_step[OF assms] cleanDatabaseID_plain by simp

text \<open>The URL of the command's help text, without its query string.\<close>

theorem url_segment_normalization_witness:
  "cleanDatabaseID ''https://www.notion.so/1d4a5e7fe23180b98df2ddce1ea05ddf''
     = cleanDatabaseID ''1d4a5e7fe23180b98df2ddce1ea05ddf''
   \<and> cleanDatabaseID ''https://www.notion.so/1d4a5e7fe23180b98df2ddce1ea05ddf'' \<noteq> None"
proof -
  have h: "\<not> Contains ''https://www.notion.so/1d4a5e7fe23180b98df2ddce1ea05ddf'' ''-''"
    "Contains ''https://www.notion.so/1d4a5e7fe23180b98df2ddce1ea05ddf'' ''notion.so''"
    "32 \<le> length (last (Split ''https://www.notion.so/1d4a5e7fe23180b98df2ddce1ea05ddf'' CHR ''/''))"
    by simp_all
  have l: "last (Split ''https://www.notion.so/1d4a5e7fe23180b98df2ddce1ea05ddf'' CHR ''/'')
             = ''1d4a5e7fe23180b98df2ddce1ea05ddf''"
    by simp
  have n: "\<not> Contains ''1d4a5e7fe23180b98df2ddce1ea05ddf'' ''notion.so''"
    by simp
  from url_segment_normalization[OF h] n show ?thesis
    unfolding l by blast
qed

text \<open>
  Claim C8 as stated fails on a URL with a dash in it: the first test of
  \<open>cleanDatabaseID\<close> returns such a string as it is, while its last piece, 32 hex digits,
  is normalized to the dashed form.
\<close>

theorem url_with_dash_unchanged:
  "32 \<le> length (last (Split ''https://my-team.notion.so/1d4a5e7fe23180b98df2ddce1ea05ddf'' CHR ''/''))
   \<and> cleanDatabaseID ''https://my-team.notion.so/1d4a5e7fe23180b98df2ddce1ea05ddf''
       = Some ''https://my-team.notion.so/1d4a5e7fe23180b98df2ddce1ea05ddf''
   \<and> cleanDatabaseID (last (Split ''https://my-team.notion.so/1d4a5e7fe23180b98df2ddce1ea05ddf'' CHR ''/''))
       = Some ''1d4a5e7f-e231-80b9-8df2-ddce1ea05ddf''"
proof -
  have "cleanDatabaseID ''https://my-team.notion.so/1d4a5e7fe23180b98df2ddce1ea05ddf''
       = Some ''https://my-team.notion.so/1d4a5e7fe23180b98df2ddce1ea05ddf''"
    by (subst cleanDatabaseID.simps) simp
  then show ?thesis by (simp add: cleanDatabaseID_example)
qed

text \<open>
  Claim C9 does not hold of the code. On an input with \<open>notion.so\<close> in it, no dash, no
  \<open>/\<close> and at least 32 bytes, the last piece of the split is the input itself, and
  \<open>cleanDatabaseID\<close> calls itself on it again without end: the call does not return.
\<close>

theorem cleanDatabaseID_no_return:
  "cleanDatabaseID ''notion.so?p=1d4a5e7fe23180b98df2ddce1ea05ddf'' = None"
  by (rule callsItself_None) (simp add: callsItself_def hex32Pattern_def isHexDigit_def)

section \<open>The \<open>insert\<close> command: the claim\<close>

text \<open>
  Claim C6. When both flags are given, the identifier normalizes to a valid UUID, a
  credential is found, the file is read and parsed and the schema is fetched, the run
  ends with exit code 0, whatever \<open>client.Page.Create\<close> answers. The service is left
  in the state that results from receiving, one after the other and in the order of the
  input, one request for every record that converted (after the schema fetch of debug
  mode, when that is on): no answer of the service ends the loop. The success count is
  the number of those requests that the service answered with a page, each request
  being answered in the state left by the requests before it.
\<close>

theorem submission_failures_exit_zero:
  assumes "dbIDFlag \<noteq> []" and "dataFile \<noteq> []"
    and "cleanDatabaseID dbIDFlag = Some dbID" and "isValidUUID dbID"
    and "apiKey = (if apiKeyFlag = [] then Getenv env ''NOTION_API_KEY'' else apiKeyFlag)"
    and "apiKey \<noteq> []"
    and "ReadFile env dataFile = Inr content"
    and "parseRawData env content = Some rawData"
    and "DatabaseGet env w apiKey dbID = (Inr database, w1)"
    and requests: "requests =
           map (\<lambda>raw. \<lparr>Parent = \<lparr>DatabaseID = dbID\<rparr>,
                        PageCreateRequest.Properties =
                          PageData.Properties (fst (convertToNotionProperties raw database))\<rparr>)
             (filter (\<lambda>raw. snd (convertToNotionProperties raw database) = None) rawData)"
    and before: "before = (\<lambda>w'. if debugMode then snd (DatabaseGet env w' apiKey dbID) else w')"
    and state: "state = (\<lambda>i. foldl (\<lambda>w' request. snd (PageCreate env (before w') apiKey request))
                            w1 (take i requests))"
  shows "\<exists>out. insertRun env w dbIDFlag dataFile apiKeyFlag debugMode = Some out
           \<and> exitCode out = 0
           \<and> world out = state (length requests)
           \<and> succeeded out =
               length (filter (\<lambda>i. \<not> isl (fst (PageCreate env (before (state i)) apiKey (requests ! i))))
                         [0..<length requests])
           \<and> created out = requests
           \<and> total out = length requests"
proof -
  let ?pages = "convertLoop rawData database []"
  have reqs: "map (pageCreateRequest dbID) ?pages = requests"
    by (simp add: convertLoop_requests requests)
  then have len: "length ?pages = length requests"
    by (metis length_map)
  obtain sent n w2 where il: "insertLoop env debugMode apiKey dbID ?pages w1 [] 0 = (sent, n, w2)"
    by (cases "insertLoop env debugMode apiKey dbID ?pages w1 [] 0") auto
  have sent: "sent = requests"
    using insertLoop_sent[of env debugMode apiKey dbID ?pages w1 "[]" 0] il reqs by simp
  have w2: "w2 = state (length requests)"
    using insertLoop_world[OF before, where pagesData = ?pages and w = w1
        and sent = "[]" and successCount = 0] il reqs by (simp add: state)
  have n: "n = length (filter (\<lambda>i. \<not> isl (fst (PageCreate env (before (state i)) apiKey (requests ! i))))
                         [0..<length requests])"
    using insertLoop_count[OF before, where pagesData = ?pages and w = w1
        and sent = "[]" and successCount = 0] il
    unfolding reqs len by (simp add: state)
  have "insertRun env w dbIDFlag dataFile apiKeyFlag debugMode =
      Some \<lparr>exitCode = 0, created = sent, succeeded = n, total = length ?pages, world = w2\<rparr>"
    using assms(1-9) il by (simp add: insertRun_def Let_def)
  with sent w2 n len show ?thesis by simp
qed

text \<open>
  A run against a service that logs what it receives and refuses the first page it is
  sent. Of three records the second has no \<open>properties\<close>; the first and the third
  both reach the service, in that order, the second of them is accepted, and the exit
  code is 0.
\<close>

theorem submission_failures_exit_zero_witness:
  "fst (PageCreate loggingEnv [] ''secret''
         \<lparr>Parent = \<lparr>DatabaseID = ''1d4a5e7f-e231-80b9-8df2-ddce1ea05ddf''\<rparr>,
          PageCreateRequest.Properties =
            [''Name'' \<mapsto> TitleProperty [\<lparr>Text = Some \<lparr>Content = ''A''\<rparr>\<rparr>],
             ''Age'' \<mapsto> NumberProperty 25]\<rparr>) = Inl ''validation_error''
   \<and> (\<exists>out. insertRun loggingEnv [] ''1d4a5e7fe23180b98df2ddce1ea05ddf'' ''data.json'' [] False
              = Some out
          \<and> exitCode out = 0
          \<and> world out =
              [\<lparr>Parent = \<lparr>DatabaseID = ''1d4a5e7f-e231-80b9-8df2-ddce1ea05ddf''\<rparr>,
                PageCreateRequest.Properties =
                  [''Name'' \<mapsto> TitleProperty [\<lparr>Text = Some \<lparr>Content = ''A''\<rparr>\<rparr>],
                   ''Age'' \<mapsto> NumberProperty 25]\<rparr>,
               \<lparr>Parent = \<lparr>DatabaseID = ''1d4a5e7f-e231-80b9-8df2-ddce1ea05ddf''\<rparr>,
                PageCreateRequest.Properties =
                  [''Name'' \<mapsto> TitleProperty [\<lparr>Text = Some \<lparr>Content = ''C''\<rparr>\<rparr>]]\<rparr>]
          \<and> succeeded out = 1
          \<and> total out = 2)"
proof -
  have cid: "cleanDatabaseID ''1d4a5e7fe23180b98df2ddce1ea05ddf''
              = Some ''1d4a5e7f-e231-80b9-8df2-ddce1ea05ddf''"
    by (rule cleanDatabaseID_example)
  have ok: "isValidUUID ''1d4a5e7f-e231-80b9-8df2-ddce1ea05ddf''"
    by (simp add: isValidUUID_def uuidPattern_def isHexDigit_def)
  have key: "''secret'' = (if [] = [] then Getenv loggingEnv ''NOTION_API_KEY'' else [])"
    by (simp add: loggingEnv_def)
  have rd: "ReadFile loggingEnv ''data.json'' = Inr ''[...]''"
    by (simp add: loggingEnv_def)
  have parse: "parseRawData loggingEnv ''[...]'' = Some exampleRecords"
    by (simp add: parseRawData_def loggingEnv_def)
  have db: "DatabaseGet loggingEnv [] ''secret'' ''1d4a5e7f-e231-80b9-8df2-ddce1ea05ddf''
              = (Inr exampleSchema, [])"
    by (simp add: loggingEnv_def)
  have refused: "fst (PageCreate loggingEnv [] ''secret''
         \<lparr>Parent = \<lparr>DatabaseID = ''1d4a5e7f-e231-80b9-8df2-ddce1ea05ddf''\<rparr>,
          PageCreateRequest.Properties =
            [''Name'' \<mapsto> TitleProperty [\<lparr>Text = Some \<lparr>Content = ''A''\<rparr>\<rparr>],
             ''Age'' \<mapsto> NumberProperty 25]\<rparr>) = Inl ''validation_error''"
    by (simp add: loggingEnv_def)
  have pc: "PageCreate loggingEnv = (\<lambda>w apiKey request.
        (if w = [] then Inl ''validation_error'' else Inr \<lparr>URL = ''https://www.notion.so/p''\<rparr>,
         w @ [request]))"
    by (simp add: loggingEnv_def)
  from submission_failures_exit_zero[OF _ _ cid ok key _ rd parse db refl refl refl, of False]
    refused
  show ?thesis
    by (auto simp: exampleRecords_def convertToNotionProperties_def exampleSchema_def pc
        upt_rec_numeral numeral_2_eq_2)
qed

end
